theory Spec2Isabelle
  imports Main "HOL-Library.AList"
begin

section \<open>Python strings\<close>


definition upper_chars :: "char list" where
  "upper_chars = ''ABCDEFGHIJKLMNOPQRSTUVWXYZ'' @
     [CHR 0xC0, CHR 0xC1, CHR 0xC2, CHR 0xC3, CHR 0xC4, CHR 0xC5, CHR 0xC6, CHR 0xC7,
      CHR 0xC8, CHR 0xC9, CHR 0xCA, CHR 0xCB, CHR 0xCC, CHR 0xCD, CHR 0xCE, CHR 0xCF,
      CHR 0xD0, CHR 0xD1, CHR 0xD2, CHR 0xD3, CHR 0xD4, CHR 0xD5, CHR 0xD6,
      CHR 0xD8, CHR 0xD9, CHR 0xDA, CHR 0xDB, CHR 0xDC, CHR 0xDD, CHR 0xDE]"

definition lower_chars :: "char list" where
  "lower_chars = ''abcdefghijklmnopqrstuvwxyz'' @
     [CHR 0xE0, CHR 0xE1, CHR 0xE2, CHR 0xE3, CHR 0xE4, CHR 0xE5, CHR 0xE6, CHR 0xE7,
      CHR 0xE8, CHR 0xE9, CHR 0xEA, CHR 0xEB, CHR 0xEC, CHR 0xED, CHR 0xEE, CHR 0xEF,
      CHR 0xF0, CHR 0xF1, CHR 0xF2, CHR 0xF3, CHR 0xF4, CHR 0xF5, CHR 0xF6,
      CHR 0xF8, CHR 0xF9, CHR 0xFA, CHR 0xFB, CHR 0xFC, CHR 0xFD, CHR 0xFE]"

definition lower_char :: "char \<Rightarrow> char" where
  "lower_char c = (case map_of (zip upper_chars lower_chars) c of Some l \<Rightarrow> l | None \<Rightarrow> c)"

text \<open>\<open>s.lower()\<close>\<close>

definition str_lower :: "string \<Rightarrow> string" where
  "str_lower s = map lower_char s"




text \<open>\<open>s.startswith(p)\<close>\<close>

fun str_startswith :: "string \<Rightarrow> string \<Rightarrow> bool" where
  "str_startswith s [] = True"
| "str_startswith [] (p # ps) = False"
| "str_startswith (c # cs) (p # ps) = (c = p \<and> str_startswith cs ps)"

text \<open>\<open>sub in s\<close>: \<open>sub\<close> occurs in \<open>s\<close> as a contiguous piece.\<close>

fun str_contains :: "string \<Rightarrow> string \<Rightarrow> bool" where
  "str_contains sub [] = (sub = [])"
| "str_contains sub (c # cs) = (str_startswith (c # cs) sub \<or> str_contains sub cs)"


section \<open>Exceptions\<close>

text \<open>
  The exceptions the program meets. \<open>SystemExit\<close> is what \<open>sys.exit\<close> raises; it is
  not a subclass of \<open>Exception\<close>, so \<open>except Exception\<close> lets it through.
  \<open>OtherException\<close> stands for every other subclass of \<open>Exception\<close> (a transport
  failure, a base64 or protobuf parse failure), with its message.
\<close>

datatype pyexc =
    HTTPError nat
  | TimeoutError string
  | KeyError string
  | OtherException string
  | SystemExit int


section \<open>The decoded record and the extracted record\<close>












section \<open>The extractor\<close>















section \<open>The service\<close>

text \<open>
  A dataset descriptor with what \<open>ds.get("dataset_id")\<close> and \<open>ds.get("num_reactions")\<close>
  find (\<open>None\<close> for a missing key), and a raw record envelope with what
  \<open>item.get("proto")\<close> finds.
\<close>

record dataset =
  dataset_id :: "string option"
  num_reactions :: "int option"

record item =
  proto :: "string option"

text \<open>
  A response: its status, its body text, and what \<open>resp.json()\<close> returns, \<open>None\<close>
  where the body does not parse and \<open>json.JSONDecodeError\<close> is raised.
\<close>

record response =
  status_code :: nat
  resp_text :: string
  resp_json :: "item list option"

datatype request =
    SubmitQuery "string option" int
  | FetchQueryResult string

text \<open>
  The remote service as the run sees it. \<open>datasets_reply\<close> is the outcome of the first
  request and its \<open>json()\<close>. \<open>http_reply n req\<close> is the outcome of the \<open>n\<close>-th later
  \<open>session.get\<close> of the run when it asks \<open>req\<close>, after the retries of the transport
  layer: a response, or the message of the exception raised. \<open>http_latency n\<close> is the
  time that call takes beyond one millisecond.
\<close>

record service =
  datasets_reply :: "string + dataset list"
  http_reply :: "nat \<Rightarrow> request \<Rightarrow> string + response"
  http_latency :: "nat \<Rightarrow> nat"

text \<open>The clock in milliseconds and the number of calls of \<open>session.get\<close> so far.\<close>

record world =
  clock :: int
  gets :: nat

definition session_get :: "service \<Rightarrow> request \<Rightarrow> world \<Rightarrow> (pyexc + response) \<times> world" where
  "session_get srv req w =
     (case http_reply srv (gets w) req of
        Inl msg \<Rightarrow> Inl (OtherException msg)
      | Inr resp \<Rightarrow> Inr resp,
      \<lparr>clock = clock w + 1 + int (http_latency srv (gets w)), gets = Suc (gets w)\<rparr>)"

text \<open>\<open>time.sleep(s)\<close>, with \<open>s\<close> in milliseconds.\<close>

definition sleep :: "int \<Rightarrow> world \<Rightarrow> world" where
  "sleep ms w = w\<lparr>clock := clock w + ms\<rparr>"

text \<open>
  \<open>Response.raise_for_status\<close> of the requests library: \<open>HTTPError\<close> for a status
  from 400 to 599, nothing otherwise.
\<close>

definition raise_for_status :: "response \<Rightarrow> pyexc option" where
  "raise_for_status resp =
     (if 400 \<le> status_code resp \<and> status_code resp < 600
      then Some (HTTPError (status_code resp)) else None)"

section \<open>The submitter and the poller\<close>

definition REACTION_TIMEOUT_S :: int where
  "REACTION_TIMEOUT_S = 90"


text \<open>
  The loop of \<open>fetch_query_result\<close>, from the test of its guard. After a status that
  is none of the three handled ones and for which \<open>raise_for_status\<close> raises nothing,
  the body ends and the guard is tested again, with no sleep.
\<close>

function poll_loop ::
  "service \<Rightarrow> string \<Rightarrow> int \<Rightarrow> world \<Rightarrow> (pyexc + item list) \<times> world"
where
  "poll_loop srv task_id start_time w =
     (if clock w - start_time < REACTION_TIMEOUT_S * 1000
      then
        (let w' = snd (session_get srv (FetchQueryResult task_id) w) in
         case fst (session_get srv (FetchQueryResult task_id) w) of
           Inl e \<Rightarrow> (Inl e, w')
         | Inr resp \<Rightarrow>
             if status_code resp = 200
             then (case resp_json resp of Some items \<Rightarrow> (Inr items, w') | None \<Rightarrow> (Inr [], w'))
             else if status_code resp = 202
             then poll_loop srv task_id start_time (sleep 2000 w')
             else if status_code resp = 400 \<and> str_contains ''not ready'' (str_lower (resp_text resp))
             then poll_loop srv task_id start_time (sleep 2000 w')
             else (case raise_for_status resp of
                     Some e \<Rightarrow> (Inl e, w')
                   | None \<Rightarrow> poll_loop srv task_id start_time w'))
      else
        (Inl (TimeoutError (''Query result for task='' @ task_id @ '' timed out after 90s.'')), w))"
  by pat_completeness auto
termination
  by (relation "measure (\<lambda>(srv, task_id, start_time, w). nat (REACTION_TIMEOUT_S * 1000 + start_time - clock w))")
     (auto simp: session_get_def sleep_def)

declare poll_loop.simps [simp del]

definition fetch_query_result ::
  "service \<Rightarrow> string \<Rightarrow> world \<Rightarrow> (pyexc + item list) \<times> world"
where
  "fetch_query_result srv task_id w = poll_loop srv task_id (clock w) w"

section \<open>The decoder\<close>


section \<open>The orchestrator\<close>













section \<open>The arguments that main passes\<close>






section \<open>Notions used to state the properties\<close>











text \<open>A reply that tells the poller to wait: 202, or 400 with "not ready" in its text.\<close>

definition says_wait :: "response \<Rightarrow> bool" where
  "says_wait resp \<longleftrightarrow>
     status_code resp = 202
     \<or> (status_code resp = 400 \<and> str_contains ''not ready'' (str_lower (resp_text resp)))"

text \<open>The world after \<open>n\<close> polls that were each followed by the sleep of two seconds.\<close>

fun after_waits :: "service \<Rightarrow> string \<Rightarrow> nat \<Rightarrow> world \<Rightarrow> world" where
  "after_waits srv task_id 0 w = w"
| "after_waits srv task_id (Suc n) w =
     after_waits srv task_id n (sleep 2000 (snd (session_get srv (FetchQueryResult task_id) w)))"



section \<open>Concrete schemas, records and services\<close>





definition w0 :: world where
  "w0 = \<lparr>clock = 0, gets = 0\<rparr>"

text \<open>Scenario A: 202 twice, then 200 with the body \<open>[]\<close>.\<close>

definition srv_scenario_a :: service where
  "srv_scenario_a =
     \<lparr>datasets_reply = Inr [],
      http_reply =
        (\<lambda>n req. if n < 2 then Inr \<lparr>status_code = 202, resp_text = '''', resp_json = None\<rparr>
                  else Inr \<lparr>status_code = 200, resp_text = ''[]'', resp_json = Some []\<rparr>),
      http_latency = (\<lambda>n. 0)\<rparr>"

text \<open>A service that answers 200 with a body that is no JSON.\<close>

definition srv_malformed :: service where
  "srv_malformed =
     \<lparr>datasets_reply = Inr [],
      http_reply =
        (\<lambda>n req. Inr \<lparr>status_code = 200, resp_text = ''<html>'', resp_json = None\<rparr>),
      http_latency = (\<lambda>n. 0)\<rparr>"

text \<open>A service that answers 304 once, then 200 with the body \<open>[]\<close>.\<close>

definition srv_not_modified :: service where
  "srv_not_modified =
     \<lparr>datasets_reply = Inr [],
      http_reply =
        (\<lambda>n req. if n = 0 then Inr \<lparr>status_code = 304, resp_text = '''', resp_json = None\<rparr>
                  else Inr \<lparr>status_code = 200, resp_text = ''[]'', resp_json = Some []\<rparr>),
      http_latency = (\<lambda>n. 0)\<rparr>"

text \<open>
  A service with five datasets: the query for \<open>d1\<close> is refused with 500, the result
  of \<open>d2\<close> is not found, the third payload of \<open>d3\<close> does not decode, and \<open>d4\<close>
  and \<open>d5\<close> go through. The task token of a dataset is its identifier, sent in double quotes
  and followed by a newline.
\<close>

definition demo_datasets :: "dataset list" where
  "demo_datasets =
     [\<lparr>dataset_id = Some ''d1'', num_reactions = Some 10\<rparr>,
      \<lparr>dataset_id = Some ''d2'', num_reactions = Some 20\<rparr>,
      \<lparr>dataset_id = Some ''d3'', num_reactions = Some 30\<rparr>,
      \<lparr>dataset_id = Some ''d4'', num_reactions = None\<rparr>,
      \<lparr>dataset_id = Some ''d5'', num_reactions = Some 50\<rparr>]"

definition srv_demo :: service where
  "srv_demo =
     \<lparr>datasets_reply = Inr demo_datasets,
      http_reply = (\<lambda>n req. case req of
          SubmitQuery d l \<Rightarrow>
            if d = Some ''d1''
            then Inr \<lparr>status_code = 500, resp_text = ''Internal Server Error'', resp_json = None\<rparr>
            else Inr \<lparr>status_code = 200,
                      resp_text = CHR 0x22 # (case d of Some i \<Rightarrow> i | None \<Rightarrow> [])
                                    @ [CHR 0x22, CHR 0x0A],
                      resp_json = None\<rparr>
        | FetchQueryResult t \<Rightarrow>
            if t = ''d2''
            then Inr \<lparr>status_code = 404, resp_text = ''Not Found'', resp_json = None\<rparr>
            else if t = ''d3''
            then Inr \<lparr>status_code = 200, resp_text = ''[...]'',
                      resp_json = Some [\<lparr>proto = Some ''r1''\<rparr>, \<lparr>proto = None\<rparr>,
                                        \<lparr>proto = Some ''bad''\<rparr>, \<lparr>proto = Some ''r2''\<rparr>]\<rparr>
            else Inr \<lparr>status_code = 200, resp_text = ''[...]'',
                      resp_json = Some [\<lparr>proto = Some ''r3''\<rparr>]\<rparr>),
      http_latency = (\<lambda>n. 0)\<rparr>"







section \<open>Strings and dictionaries\<close>


lemma str_startswith_iff: "str_startswith s p \<longleftrightarrow> (\<exists>post. s = p @ post)"
  by (induction s p rule: str_startswith.induct) auto

lemma str_contains_iff: "str_contains sub s \<longleftrightarrow> (\<exists>pre post. s = pre @ sub @ post)"
proof (induction s)
  case Nil
  then show ?case by auto
next
  case (Cons c cs)
  show ?case
  proof
    assume "str_contains sub (c # cs)"
    then consider "str_startswith (c # cs) sub" | "str_contains sub cs" by auto
    then show "\<exists>pre post. c # cs = pre @ sub @ post"
    proof cases
      case 1
      then obtain post where "c # cs = sub @ post" by (auto simp: str_startswith_iff)
      then have "c # cs = [] @ sub @ post" by simp
      then show ?thesis by blast
    next
      case 2
      with Cons.IH obtain pre post where "cs = pre @ sub @ post" by blast
      then have "c # cs = (c # pre) @ sub @ post" by simp
      then show ?thesis by blast
    qed
  next
    assume "\<exists>pre post. c # cs = pre @ sub @ post"
    then obtain pre post where eq: "c # cs = pre @ sub @ post" by blast
    show "str_contains sub (c # cs)"
    proof (cases pre)
      case Nil
      with eq have "str_startswith (c # cs) sub" by (auto simp: str_startswith_iff)
      then show ?thesis by simp
    next
      case (Cons p pre')
      with eq have "cs = pre' @ sub @ post" by simp
      with Cons.IH have "str_contains sub cs" by blast
      then show ?thesis by simp
    qed
  qed
qed

section \<open>The extractor files every kept component by one rule\<close>




























section \<open>Properties of the extractor\<close>









section \<open>The poll loop, one reply at a time\<close>

lemma session_get_fst:
  "http_reply srv (gets w) req = Inr resp \<Longrightarrow> fst (session_get srv req w) = Inr resp"
  by (simp add: session_get_def)

lemma session_get_gets: "gets (snd (session_get srv req w)) = Suc (gets w)"
  by (simp add: session_get_def)

lemma session_get_clock: "clock w < clock (snd (session_get srv req w))"
  by (simp add: session_get_def)

lemma poll_loop_200:
  assumes "clock w - start_time < REACTION_TIMEOUT_S * 1000"
    and "http_reply srv (gets w) (FetchQueryResult task_id) = Inr resp"
    and "status_code resp = 200"
  shows "poll_loop srv task_id start_time w =
           (Inr (case resp_json resp of Some items \<Rightarrow> items | None \<Rightarrow> []),
            snd (session_get srv (FetchQueryResult task_id) w))"
  using assms
  by (subst poll_loop.simps) (simp add: session_get_fst Let_def split: option.splits)

lemma poll_loop_wait:
  assumes "clock w - start_time < REACTION_TIMEOUT_S * 1000"
    and "http_reply srv (gets w) (FetchQueryResult task_id) = Inr resp"
    and "says_wait resp"
  shows "poll_loop srv task_id start_time w =
           poll_loop srv task_id start_time
             (sleep 2000 (snd (session_get srv (FetchQueryResult task_id) w)))"
  using assms
  by (subst poll_loop.simps) (auto simp: session_get_fst Let_def says_wait_def)

lemma poll_loop_error_status:
  assumes "clock w - start_time < REACTION_TIMEOUT_S * 1000"
    and "http_reply srv (gets w) (FetchQueryResult task_id) = Inr resp"
    and "400 \<le> status_code resp" and "status_code resp < 600"
    and "\<not> says_wait resp"
  shows "poll_loop srv task_id start_time w =
           (Inl (HTTPError (status_code resp)), snd (session_get srv (FetchQueryResult task_id) w))"
  using assms
  by (subst poll_loop.simps) (auto simp: session_get_fst Let_def raise_for_status_def says_wait_def)

lemma after_waits_clock: "clock w \<le> clock (after_waits srv task_id n w)"
proof (induction n arbitrary: w)
  case 0
  then show ?case by simp
next
  case (Suc n)
  let ?w = "sleep 2000 (snd (session_get srv (FetchQueryResult task_id) w))"
  have "clock w \<le> clock ?w"
    using session_get_clock [of w srv "FetchQueryResult task_id"] by (simp add: sleep_def)
  also have "\<dots> \<le> clock (after_waits srv task_id n ?w)"
    by (rule Suc.IH)
  finally show ?case by simp
qed

lemma after_waits_gets: "gets (after_waits srv task_id n w) = gets w + n"
  by (induction n arbitrary: w) (simp_all add: session_get_gets sleep_def)

lemma poll_loop_after_waits:
  assumes "\<forall>i<n. \<exists>r. http_reply srv (gets w + i) (FetchQueryResult task_id) = Inr r \<and> says_wait r"
    and "clock (after_waits srv task_id n w) - start_time < REACTION_TIMEOUT_S * 1000"
  shows "poll_loop srv task_id start_time w
           = poll_loop srv task_id start_time (after_waits srv task_id n w)"
  using assms
proof (induction n arbitrary: w)
  case 0
  then show ?case by simp
next
  case (Suc n)
  let ?w = "sleep 2000 (snd (session_get srv (FetchQueryResult task_id) w))"
  from Suc.prems(1) obtain r where r: "http_reply srv (gets w) (FetchQueryResult task_id) = Inr r"
    "says_wait r" by force
  have "clock w \<le> clock (after_waits srv task_id (Suc n) w)" by (rule after_waits_clock)
  with Suc.prems(2) have guard: "clock w - start_time < REACTION_TIMEOUT_S * 1000" by simp
  have step: "poll_loop srv task_id start_time w = poll_loop srv task_id start_time ?w"
    using guard r by (rule poll_loop_wait)
  have gets: "gets ?w = Suc (gets w)" by (simp add: sleep_def session_get_gets)
  have "\<forall>i<n. \<exists>r. http_reply srv (gets ?w + i) (FetchQueryResult task_id) = Inr r \<and> says_wait r"
  proof (intro allI impI)
    fix i assume "i < n"
    then have "Suc i < Suc n" by simp
    with Suc.prems(1)
    have "\<exists>r. http_reply srv (gets w + Suc i) (FetchQueryResult task_id) = Inr r \<and> says_wait r"
      by blast
    then show "\<exists>r. http_reply srv (gets ?w + i) (FetchQueryResult task_id) = Inr r \<and> says_wait r"
      by (simp add: gets)
  qed
  moreover from Suc.prems(2)
  have "clock (after_waits srv task_id n ?w) - start_time < REACTION_TIMEOUT_S * 1000"
    by simp
  ultimately have "poll_loop srv task_id start_time ?w
      = poll_loop srv task_id start_time (after_waits srv task_id n ?w)"
    by (rule Suc.IH)
  with step show ?case by simp
qed

section \<open>Properties of the poller\<close>

text \<open>
  C9. When the poller receives 200 it returns what the body parses to, and the empty list
  when the body does not parse; it raises nothing. This holds after any number of replies
  that told it to wait, as long as the 200 arrives before the timeout: the result of
  \<open>fetch_query_result\<close> is then the parsed body of that reply, or \<open>[]\<close>.
\<close>

theorem ready_result_is_parsed_body_or_empty:
  assumes "\<forall>i<n. \<exists>r. http_reply srv (gets w + i) (FetchQueryResult task_id) = Inr r \<and> says_wait r"
    and "http_reply srv (gets w + n) (FetchQueryResult task_id) = Inr resp"
    and "status_code resp = 200"
    and "clock (after_waits srv task_id n w) - clock w < REACTION_TIMEOUT_S * 1000"
  shows "fst (fetch_query_result srv task_id w)
           = Inr (case resp_json resp of Some items \<Rightarrow> items | None \<Rightarrow> [])"
proof -
  let ?w = "after_waits srv task_id n w"
  have "fetch_query_result srv task_id w = poll_loop srv task_id (clock w) ?w"
    unfolding fetch_query_result_def using assms(1,4) by (rule poll_loop_after_waits)
  moreover have "http_reply srv (gets ?w) (FetchQueryResult task_id) = Inr resp"
    using assms(2) by (simp add: after_waits_gets)
  ultimately show ?thesis
    using poll_loop_200 [OF assms(4) _ assms(3), of srv task_id] by simp
qed

theorem ready_result_is_parsed_body_or_empty_witness:
  "fst (fetch_query_result srv_scenario_a ''task-7'' w0) = Inr []
   \<and> fst (fetch_query_result srv_malformed ''task-7'' w0) = Inr []"
proof -
  have waits: "\<forall>i<2. \<exists>r. http_reply srv_scenario_a (gets w0 + i) (FetchQueryResult ''task-7'') = Inr r
      \<and> says_wait r"
    by (simp add: srv_scenario_a_def says_wait_def w0_def)
  have ready: "http_reply srv_scenario_a (gets w0 + 2) (FetchQueryResult ''task-7'')
      = Inr \<lparr>status_code = 200, resp_text = ''[]'', resp_json = Some []\<rparr>"
    by (simp add: srv_scenario_a_def w0_def)
  have time: "clock (after_waits srv_scenario_a ''task-7'' 2 w0) - clock w0 < REACTION_TIMEOUT_S * 1000"
    by code_simp
  have a: "fst (fetch_query_result srv_scenario_a ''task-7'' w0) = Inr []"
    using ready_result_is_parsed_body_or_empty [OF waits ready _ time] by simp
  have ready': "http_reply srv_malformed (gets w0 + 0) (FetchQueryResult ''task-7'')
      = Inr \<lparr>status_code = 200, resp_text = ''<html>'', resp_json = None\<rparr>"
    by (simp add: srv_malformed_def)
  have time': "clock (after_waits srv_malformed ''task-7'' 0 w0) - clock w0 < REACTION_TIMEOUT_S * 1000"
    by code_simp
  have b: "fst (fetch_query_result srv_malformed ''task-7'' w0) = Inr []"
    using ready_result_is_parsed_body_or_empty [OF _ ready' _ time'] by simp
  from a b show ?thesis by simp
qed

text \<open>
  C3, as stated: every status other than 200, 202 and 400 with "not ready" makes the
  poller fail at once. It does not: after 304 the poller raises nothing and polls again,
  here receiving 200 on its second call.
\<close>

theorem other_status_fails_at_once_counterexample:
  "http_reply srv_not_modified 0 (FetchQueryResult ''task-7'')
     = Inr \<lparr>status_code = 304, resp_text = '''', resp_json = None\<rparr>
   \<and> fetch_query_result srv_not_modified ''task-7'' w0 = (Inr [], \<lparr>clock = 2, gets = 2\<rparr>)"
proof -
  have "http_reply srv_not_modified 0 (FetchQueryResult ''task-7'')
     = Inr \<lparr>status_code = 304, resp_text = '''', resp_json = None\<rparr>"
    by (simp add: srv_not_modified_def)
  moreover have "fetch_query_result srv_not_modified ''task-7'' w0 = (Inr [], \<lparr>clock = 2, gets = 2\<rparr>)"
    by code_simp
  ultimately show ?thesis by simp
qed

text \<open>
  C3, amended: a reply with a status from 400 to 599, other than 400 with "not ready",
  makes the poller fail at once with the HTTP error of that status, whatever number of
  replies told it to wait before; the failing call is its last.
\<close>

theorem error_status_fails_at_once:
  assumes "\<forall>i<n. \<exists>r. http_reply srv (gets w + i) (FetchQueryResult task_id) = Inr r \<and> says_wait r"
    and "http_reply srv (gets w + n) (FetchQueryResult task_id) = Inr resp"
    and "400 \<le> status_code resp" and "status_code resp < 600"
    and "\<not> says_wait resp"
    and "clock (after_waits srv task_id n w) - clock w < REACTION_TIMEOUT_S * 1000"
  shows "fst (fetch_query_result srv task_id w) = Inl (HTTPError (status_code resp))
       \<and> gets (snd (fetch_query_result srv task_id w)) = gets w + n + 1"
proof -
  let ?w = "after_waits srv task_id n w"
  have "fetch_query_result srv task_id w = poll_loop srv task_id (clock w) ?w"
    unfolding fetch_query_result_def using assms(1,6) by (rule poll_loop_after_waits)
  moreover have "http_reply srv (gets ?w) (FetchQueryResult task_id) = Inr resp"
    using assms(2) by (simp add: after_waits_gets)
  from poll_loop_error_status [OF assms(6) this assms(3,4,5)]
  have "poll_loop srv task_id (clock w) ?w
          = (Inl (HTTPError (status_code resp)), snd (session_get srv (FetchQueryResult task_id) ?w))" .
  ultimately show ?thesis by (simp add: session_get_gets after_waits_gets)
qed

theorem error_status_fails_at_once_witness:
  "fst (fetch_query_result srv_demo ''d2'' w0) = Inl (HTTPError 404)
   \<and> gets (snd (fetch_query_result srv_demo ''d2'' w0)) = 1"
proof -
  have reply: "http_reply srv_demo (gets w0 + 0) (FetchQueryResult ''d2'')
      = Inr \<lparr>status_code = 404, resp_text = ''Not Found'', resp_json = None\<rparr>"
    by (simp add: srv_demo_def)
  have nowait: "\<not> says_wait \<lparr>status_code = 404, resp_text = ''Not Found'', resp_json = None\<rparr>"
    by (simp add: says_wait_def)
  have time: "clock (after_waits srv_demo ''d2'' 0 w0) - clock w0 < REACTION_TIMEOUT_S * 1000"
    by code_simp
  show ?thesis
    using error_status_fails_at_once [OF _ reply _ _ nowait time] by (simp add: w0_def)
qed

section \<open>Exceptions and results of one dataset\<close>








section \<open>Invariants of the loop over the datasets\<close>















section \<open>Properties of the orchestrator\<close>













end
